theory Spec2Isabelle
  imports Complex_Main
begin

section \<open>Wash-trading detector: the scoring engine of wash\_detector.py\<close>

text \<open>
  The Python source computes with floats. The scorer, the label, the correlation and
  the volume/depth ratio are modelled with exact \<open>real\<close> numbers: their comparisons,
  sums and quotients are those of the source, without binary rounding. The side-symmetry
  test is modelled with the rounding of each float operation, because there the rounding
  changes the verdict. The result dictionaries of the three tests are records that share
  the key \<open>result\<close>, a string as in the source.
\<close>

subsection \<open>Test outcomes\<close>

record outcome =
  result :: string

record benford_outcome = outcome +
  chi_squared :: real
  p_value :: real

record symmetry_outcome = outcome +
  buy_pct :: real
  sell_pct :: real

record volume_depth_outcome = outcome +
  ratio :: real
  benchmark :: string

subsection \<open>calculate\_manipulation\_probability and get\_manipulation\_label\<close>

text \<open>
  Lines 230 to 255: the variable \<open>score\<close> starts at 0.0 and is updated by three
  blocks in turn. Each \<open>let\<close> below is one block; a block whose guard fails leaves
  the score as it is.
\<close>

definition manipulation_score ::
  "benford_outcome \<Rightarrow> symmetry_outcome \<Rightarrow> volume_depth_outcome \<Rightarrow> real" where
  "manipulation_score benford symmetry volume_depth =
     (let score0 = 0;
          score1 =
            (if result benford = ''FAIL''
             then (if p_value benford < 0.01 then score0 + 0.5 else score0 + 0.3)
             else score0);
          score2 =
            (if result symmetry = ''FAIL''
             then (let max_deviation =
                         max \<bar>buy_pct symmetry - 50\<bar> \<bar>sell_pct symmetry - 50\<bar>
                   in if max_deviation > 15 then score1 + 0.3
                      else if max_deviation > 10 then score1 + 0.2
                      else score1 + 0.1)
             else score1);
          score3 =
            (if result volume_depth = ''FAIL'' then score2 + 0.2
             else if result volume_depth = ''WARNING'' then score2 + 0.1
             else score2)
      in score3)"

text \<open>Line 257: \<open>return min(score, 1.0)\<close>.\<close>

definition calculate_manipulation_probability ::
  "benford_outcome \<Rightarrow> symmetry_outcome \<Rightarrow> volume_depth_outcome \<Rightarrow> real" where
  "calculate_manipulation_probability benford symmetry volume_depth =
     min (manipulation_score benford symmetry volume_depth) 1.0"

definition get_manipulation_label :: "real \<Rightarrow> string" where
  "get_manipulation_label prob =
     (if prob < 0.3 then ''LOW''
      else if prob < 0.6 then ''MEDIUM''
      else ''HIGH'')"

text \<open>
  The contributions as the specification words them, one function per test, to be
  compared with the accumulated score of the source.
\<close>

definition spec_digit_contribution :: "benford_outcome \<Rightarrow> real" where
  "spec_digit_contribution b =
     (if result b = ''FAIL'' then (if p_value b < 0.01 then 0.5 else 0.3) else 0.0)"

definition spec_symmetry_contribution :: "symmetry_outcome \<Rightarrow> real" where
  "spec_symmetry_contribution s =
     (if result s = ''FAIL''
      then (let d = max \<bar>buy_pct s - 50\<bar> \<bar>sell_pct s - 50\<bar>
            in if d > 15 then 0.3 else if d > 10 then 0.2 else 0.1)
      else 0.0)"

definition spec_volume_contribution :: "volume_depth_outcome \<Rightarrow> real" where
  "spec_volume_contribution v =
     (if result v = ''WARNING'' then 0.1 else if result v = ''FAIL'' then 0.2 else 0.0)"

subsection \<open>calculate\_score\_correlation\<close>

text \<open>Python's \<open>None\<close> is \<open>None\<close> of the option type, for the argument and the result.\<close>

definition calculate_score_correlation :: "real \<Rightarrow> real option \<Rightarrow> real option" where
  "calculate_score_correlation manipulation_prob algohouse_score =
     (case algohouse_score of
        None \<Rightarrow> None
      | Some score \<Rightarrow> Some (- 1.0 * (manipulation_prob - (1 - score))))"

section \<open>The three tests\<close>

subsection \<open>Exceptions and Python values\<close>

text \<open>
  Every \<open>raise\<close> of the modelled code is a value \<open>Inl e\<close>. All of these are
  subclasses of Python's \<open>Exception\<close> (the two last stand for the errors of the
  exchange client), so \<open>except Exception\<close> catches each of them.
\<close>

datatype exn =
  AttributeError | KeyError | TypeError | ValueError | IndexError
  | NetworkError | ExchangeError

text \<open>
  A finite float is given by the decimal that Python's \<open>repr\<close> prints for it: a sign,
  the significant digits \<open>d1 ... dk\<close> (none for zero) and the position \<open>decpt\<close> of
  the decimal point, so that the value is \<open>0.d1...dk * 10 ^ decpt\<close>.
\<close>

record decimal =
  negative :: bool
  digits :: "nat list"
  decpt :: int

definition wf_decimal :: "decimal \<Rightarrow> bool" where
  "wf_decimal x \<longleftrightarrow>
     list_all (\<lambda>d. d \<le> 9) (digits x) \<and> (digits x \<noteq> [] \<longrightarrow> hd (digits x) \<noteq> 0)"

definition mantissa :: "nat list \<Rightarrow> nat" where
  "mantissa ds = foldl (\<lambda>a d. 10 * a + d) 0 ds"

definition decimal_val :: "decimal \<Rightarrow> real" where
  "decimal_val x =
     (if negative x then - 1 else 1) * real (mantissa (digits x))
       * 10 powr (real_of_int (decpt x) - real (length (digits x)))"

definition digit_char :: "nat \<Rightarrow> char" where
  "digit_char d = ''0123456789'' ! d"

fun nat_str :: "nat \<Rightarrow> string" where
  "nat_str n = (if n < 10 then [digit_char n] else nat_str (n div 10) @ [digit_char (n mod 10)])"

declare nat_str.simps [simp del]

text \<open>
  \<open>str\<close> of a finite float: Python prints the shortest decimal that reads back as the
  same float, in positional notation when \<open>-4 < decpt \<le> 16\<close> and in scientific
  notation (one digit, the others after a point, an exponent of at least two digits)
  otherwise.
\<close>

definition decimal_str :: "decimal \<Rightarrow> string" where
  "decimal_str x =
     (let sign = (if negative x then ''-'' else []);
          ds = map digit_char (digits x);
          k = int (length ds);
          p = decpt x
      in if ds = [] then sign @ ''0.0''
         else if - 4 < p \<and> p \<le> 16 then
           (if p \<le> 0 then sign @ ''0.'' @ replicate (nat (- p)) (CHR ''0'') @ ds
            else if k \<le> p then sign @ ds @ replicate (nat (p - k)) (CHR ''0'') @ ''.0''
            else sign @ take (nat p) ds @ ''.'' @ drop (nat p) ds)
         else
           (let e = p - 1; es = nat_str (nat \<bar>e\<bar>)
            in sign @ [hd ds] @ (if tl ds = [] then [] else ''.'' @ tl ds) @ ''e''
                 @ (if e < 0 then ''-'' else ''+'')
                 @ (if length es < 2 then ''0'' @ es else es)))"

text \<open>
  The value of \<open>float(t['amount'])\<close>: a finite float, an infinity (\<open>Infinity True\<close> is
  the negative one) or a NaN. Python's \<open>float\<close> gives an infinity for a string such
  as \<open>'inf'\<close> or \<open>'1e400'\<close>, and the JSON reader gives one for the number \<open>1e999\<close>.
\<close>

datatype pyfloat = Finite decimal | Infinity bool | NaN

fun wf_float :: "pyfloat \<Rightarrow> bool" where
  "wf_float (Finite x) = wf_decimal x"
| "wf_float (Infinity neg) = True"
| "wf_float NaN = True"

text \<open>\<open>amt > 0\<close>: true of the positive infinity, false of every NaN.\<close>

fun float_gt_zero :: "pyfloat \<Rightarrow> bool" where
  "float_gt_zero (Finite x) = (decimal_val x > 0)"
| "float_gt_zero (Infinity neg) = (\<not> neg)"
| "float_gt_zero NaN = False"

text \<open>\<open>str(float(amt))\<close>.\<close>

fun float_str :: "pyfloat \<Rightarrow> string" where
  "float_str (Finite x) = decimal_str x"
| "float_str (Infinity neg) = (if neg then ''-inf'' else ''inf'')"
| "float_str NaN = ''nan''"

text \<open>
  The leading significant digit of a finite float (0 when it has none), to state what
  line 94 extracts.
\<close>

fun leading_digit :: "pyfloat \<Rightarrow> nat" where
  "leading_digit (Finite x) = (case digits x of [] \<Rightarrow> 0 | d # _ \<Rightarrow> d)"
| "leading_digit (Infinity neg) = 0"
| "leading_digit NaN = 0"

text \<open>\<open>s.lstrip(chars)\<close> removes the leading characters that occur in \<open>chars\<close>.\<close>

definition lstrip :: "string \<Rightarrow> string \<Rightarrow> string" where
  "lstrip chars s = dropWhile (\<lambda>c. c \<in> set chars) s"

text \<open>\<open>int(c)\<close> for a string of one character: a digit, or ValueError.\<close>

definition int_of_char :: "char \<Rightarrow> exn + nat" where
  "int_of_char c =
     (if c = CHR ''0'' then Inr 0 else if c = CHR ''1'' then Inr 1
      else if c = CHR ''2'' then Inr 2 else if c = CHR ''3'' then Inr 3
      else if c = CHR ''4'' then Inr 4 else if c = CHR ''5'' then Inr 5
      else if c = CHR ''6'' then Inr 6 else if c = CHR ''7'' then Inr 7
      else if c = CHR ''8'' then Inr 8 else if c = CHR ''9'' then Inr 9
      else Inl ValueError)"

subsection \<open>Trades\<close>

text \<open>
  A trade dictionary, with the two keys the tests read. \<open>side\<close> is the value of
  \<open>t.get('side')\<close>: \<open>None\<close> when the key is missing or holds \<open>None\<close>.
  \<open>amount\<close> is the value of \<open>float(t['amount'])\<close>.
\<close>

record trade =
  amount :: pyfloat
  side :: "string option"

subsection \<open>benford\_law\_test\<close>

text \<open>
  Line 94, for one amount: \<open>int(str(float(amt)).lstrip('0.')[0])\<close>. Indexing the
  empty string raises IndexError.
\<close>

definition first_digit :: "pyfloat \<Rightarrow> exn + nat" where
  "first_digit amt =
     (case lstrip ''0.'' (float_str amt) of
        [] \<Rightarrow> Inl IndexError
      | c # _ \<Rightarrow> int_of_char c)"

text \<open>The comprehension of line 94: the first amount that raises ends it.\<close>

fun first_digits_of :: "pyfloat list \<Rightarrow> exn + nat list" where
  "first_digits_of [] = Inr []"
| "first_digits_of (amt # amounts) =
     (if float_gt_zero amt then
        (case first_digit amt of
           Inl e \<Rightarrow> Inl e
         | Inr d \<Rightarrow>
             (case first_digits_of amounts of
                Inl e \<Rightarrow> Inl e
              | Inr ds \<Rightarrow> Inr (d # ds)))
      else first_digits_of amounts)"

text \<open>Lines 93 to 95: the digits that are counted.\<close>

definition valid_first_digits :: "trade list \<Rightarrow> exn + nat list" where
  "valid_first_digits trades =
     (let amounts = map amount (filter (\<lambda>t. float_gt_zero (amount t)) trades)
      in case first_digits_of amounts of
           Inl e \<Rightarrow> Inl e
         | Inr first_digits \<Rightarrow> Inr (filter (\<lambda>d. 1 \<le> d \<and> d \<le> 9) first_digits))"

text \<open>
  \<open>scipy.stats.chisquare\<close>: a ValueError when the two sums differ by more than the
  relative tolerance 1e-8; otherwise Pearson's statistic and the probability that a
  chi-squared variable with \<open>2 * m\<close> degrees of freedom exceeds it, which has the
  closed form below. The test has 9 categories, so 8 degrees of freedom.
\<close>

definition chi2_sf_even :: "nat \<Rightarrow> real \<Rightarrow> real" where
  "chi2_sf_even m x = exp (- x / 2) * (\<Sum>j<m. (x / 2) ^ j / fact j)"

definition chisquare :: "real list \<Rightarrow> real list \<Rightarrow> exn + (real \<times> real)" where
  "chisquare f_obs f_exp =
     (let f_obs_sum = sum_list f_obs;
          f_exp_sum = sum_list f_exp;
          relative_diff = \<bar>f_obs_sum - f_exp_sum\<bar> / min f_obs_sum f_exp_sum
      in if relative_diff > 1 / 10 ^ 8 then Inl ValueError
         else let stat = sum_list (map2 (\<lambda>ob ex. (ob - ex)\<^sup>2 / ex) f_obs f_exp)
              in Inr (stat, chi2_sf_even 4 stat))"

definition benford_law_test :: "trade list \<Rightarrow> exn + benford_outcome" where
  "benford_law_test trades =
     (case valid_first_digits trades of
        Inl e \<Rightarrow> Inl e
      | Inr first_digits \<Rightarrow>
          if first_digits = []
          then Inr \<lparr>result = ''INSUFFICIENT_DATA'', chi_squared = 0, p_value = 1.0\<rparr>
          else
            (let observed_freq = map (\<lambda>d. real (count_list first_digits d)) [1..<10];
                 expected_freq =
                   map (\<lambda>d. real (length first_digits) * log 10 (1 + 1 / real d)) [1..<10]
             in case chisquare observed_freq expected_freq of
                  Inl e \<Rightarrow> Inl e
                | Inr (chi, p) \<Rightarrow>
                    Inr \<lparr>result = (if p < 0.05 then ''FAIL'' else ''PASS''),
                         chi_squared = chi, p_value = p\<rparr>))"

subsection \<open>buy\_sell\_symmetry\_test\<close>

text \<open>
  The two percentages are compared with the edges 45 and 55 of the band, where the
  rounding of the float operations decides the verdict, so this test is modelled with
  it: \<open>binary64\<close> rounds a real to the nearest double, ties to the even significand
  (53 bits; below \<open>2 ^ -1022\<close> the spacing stays \<open>2 ^ -1074\<close>). The values rounded here
  are at most 100, so the overflow to infinity is left out.
\<close>

definition round_half_even :: "real \<Rightarrow> int" where
  "round_half_even x =
     (let f = \<lfloor>x\<rfloor>; d = x - of_int f
      in if d < 1 / 2 then f
         else if 1 / 2 < d then f + 1
         else if even f then f else f + 1)"

definition binary64 :: "real \<Rightarrow> real" where
  "binary64 x =
     (if x = 0 then 0
      else
        (let e = max \<lfloor>log 2 \<bar>x\<bar>\<rfloor> (- 1022);
             ulp = 2 powr (of_int e - 52)
         in sgn x * of_int (round_half_even (\<bar>x\<bar> / ulp)) * ulp))"

text \<open>
  Lines 137 to 154. \<open>buy_count / total\<close> is the correctly rounded quotient of two
  integers, and its product with 100 is rounded again.
\<close>

definition buy_sell_symmetry_test :: "trade list \<Rightarrow> symmetry_outcome" where
  "buy_sell_symmetry_test trades =
     (let buy_count = (\<Sum>t\<leftarrow>filter (\<lambda>t. side t = Some ''buy'') trades. (1::nat));
          sell_count = (\<Sum>t\<leftarrow>filter (\<lambda>t. side t = Some ''sell'') trades. (1::nat));
          total = buy_count + sell_count
      in if total = 0
         then \<lparr>result = ''INSUFFICIENT_DATA'', buy_pct = 0, sell_pct = 0\<rparr>
         else
           (let bp = binary64 (binary64 (real buy_count / real total) * 100);
                sp = binary64 (binary64 (real sell_count / real total) * 100)
            in \<lparr>result =
                   (if 45 \<le> bp \<and> bp \<le> 55 \<and> 45 \<le> sp \<and> sp \<le> 55 then ''PASS'' else ''FAIL''),
                 buy_pct = bp, sell_pct = sp\<rparr>))"

subsection \<open>volume\_depth\_ratio\_test\<close>

text \<open>
  A value of the ticker dictionary is \<open>None\<close> or a number; \<open>float(None)\<close> raises
  TypeError.
\<close>

datatype pyval = PyNone | PyNum real

definition py_float :: "pyval \<Rightarrow> exn + real" where
  "py_float v = (case v of PyNone \<Rightarrow> Inl TypeError | PyNum x \<Rightarrow> Inr x)"

type_synonym ticker = "string \<rightharpoonup> pyval"

text \<open>Each level of the book is the pair of \<open>bid[0]\<close> (price) and \<open>bid[1]\<close> (size).\<close>

record order_book =
  bids :: "(real \<times> real) list"
  asks :: "(real \<times> real) list"

text \<open>
  The exchange client: its two calls answer with a value or raise. \<open>ccxt\<close> maps an
  exchange name to its client (\<open>getattr\<close> and the constructor of lines 174 and
  175), or raises.
\<close>

record exchange =
  fetch_ticker :: "string \<Rightarrow> exn + ticker"
  fetch_order_book :: "string \<Rightarrow> nat \<Rightarrow> exn + order_book"

type_synonym ccxt = "string \<Rightarrow> exn + exchange"

text \<open>Lines 183 to 185.\<close>

definition total_depth :: "order_book \<Rightarrow> real" where
  "total_depth ob =
     (let bid_depth = sum_list (map (\<lambda>bid. snd bid * fst bid) (bids ob));
          ask_depth = sum_list (map (\<lambda>ask. snd ask * fst ask) (asks ob))
      in bid_depth + ask_depth)"

text \<open>The body of the \<open>try\<close> block, lines 174 to 206.\<close>

definition volume_depth_try :: "ccxt \<Rightarrow> string \<Rightarrow> string \<Rightarrow> exn + volume_depth_outcome" where
  "volume_depth_try ccxt exchange_name pair =
     (case ccxt exchange_name of
        Inl e \<Rightarrow> Inl e
      | Inr ex \<Rightarrow>
     (case fetch_ticker ex pair of
        Inl e \<Rightarrow> Inl e
      | Inr tk \<Rightarrow>
     (case py_float (case tk ''quoteVolume'' of None \<Rightarrow> PyNum 0 | Some v \<Rightarrow> v) of
        Inl e \<Rightarrow> Inl e
      | Inr volume_24h \<Rightarrow>
     (case fetch_order_book ex pair 20 of
        Inl e \<Rightarrow> Inl e
      | Inr ob \<Rightarrow>
          if total_depth ob = 0
          then Inr \<lparr>result = ''INSUFFICIENT_DATA'', ratio = 0, benchmark = ''3-5x''\<rparr>
          else
            (let r = volume_24h / total_depth ob;
                 res =
                   (if r < 3 then ''PASS''
                    else if 3 \<le> r \<and> r \<le> 10 then ''PASS''
                    else if 10 < r \<and> r \<le> 20 then ''WARNING''
                    else ''FAIL'')
             in Inr \<lparr>result = res, ratio = r, benchmark = ''3-5x''\<rparr>)))))"

text \<open>Lines 173 and 208 to 210: any exception of the body gives the ERROR outcome.\<close>

definition volume_depth_ratio_test :: "ccxt \<Rightarrow> string \<Rightarrow> string \<Rightarrow> volume_depth_outcome" where
  "volume_depth_ratio_test ccxt exchange_name pair =
     (case volume_depth_try ccxt exchange_name pair of
        Inr outcome \<Rightarrow> outcome
      | Inl e \<Rightarrow> \<lparr>result = ''ERROR'', ratio = 0, benchmark = ''3-5x''\<rparr>)"

section \<open>Properties of the scorer\<close>

lemma score_as_sum:
  "manipulation_score b s v =
     spec_digit_contribution b + spec_symmetry_contribution s + spec_volume_contribution v"
  by (simp add: manipulation_score_def spec_digit_contribution_def
      spec_symmetry_contribution_def spec_volume_contribution_def Let_def)

lemma digit_contribution_tenths:
  "\<exists>k::nat. k \<le> 5 \<and> spec_digit_contribution b = real k / 10"
proof -
  let ?k = "if result b = ''FAIL'' then (if p_value b < 0.01 then 5 else 3) else (0::nat)"
  have "?k \<le> 5 \<and> spec_digit_contribution b = real ?k / 10"
    by (simp add: spec_digit_contribution_def)
  then show ?thesis by blast
qed

lemma symmetry_contribution_tenths:
  "\<exists>k::nat. k \<le> 3 \<and> spec_symmetry_contribution s = real k / 10"
proof -
  let ?d = "max \<bar>buy_pct s - 50\<bar> \<bar>sell_pct s - 50\<bar>"
  let ?k = "if result s = ''FAIL''
            then (if ?d > 15 then 3 else if ?d > 10 then 2 else 1) else (0::nat)"
  have "?k \<le> 3 \<and> spec_symmetry_contribution s = real ?k / 10"
    by (simp add: spec_symmetry_contribution_def Let_def)
  then show ?thesis by blast
qed

lemma volume_contribution_tenths:
  "\<exists>k::nat. k \<le> 2 \<and> spec_volume_contribution v = real k / 10"
proof -
  let ?k = "if result v = ''WARNING'' then 1 else if result v = ''FAIL'' then 2 else (0::nat)"
  have "?k \<le> 2 \<and> spec_volume_contribution v = real ?k / 10"
    by (simp add: spec_volume_contribution_def)
  then show ?thesis by blast
qed

lemma score_tenths:
  "\<exists>k::nat. k \<le> 10 \<and> manipulation_score b s v = real k / 10"
proof -
  obtain k1 :: nat where k1: "k1 \<le> 5" "spec_digit_contribution b = real k1 / 10"
    using digit_contribution_tenths by blast
  obtain k2 :: nat where k2: "k2 \<le> 3" "spec_symmetry_contribution s = real k2 / 10"
    using symmetry_contribution_tenths by blast
  obtain k3 :: nat where k3: "k3 \<le> 2" "spec_volume_contribution v = real k3 / 10"
    using volume_contribution_tenths by blast
  have "k1 + k2 + k3 \<le> 10" using k1(1) k2(1) k3(1) by simp
  moreover have "manipulation_score b s v = real (k1 + k2 + k3) / 10"
    by (simp add: score_as_sum k1(2) k2(2) k3(2) add_divide_distrib)
  ultimately show ?thesis by blast
qed

lemma score_bounds:
  "0 \<le> manipulation_score b s v \<and> manipulation_score b s v \<le> 1"
proof -
  obtain k :: nat where "k \<le> 10" "manipulation_score b s v = real k / 10"
    using score_tenths by blast
  then show ?thesis by simp
qed

lemma tenth_values:
  "k \<le> (10::nat) \<Longrightarrow>
   real k / 10 \<in> {0.0, 0.1, 0.2, 0.3, 0.4, 0.5, 0.6, 0.7, 0.8, 0.9, 1.0}"
proof -
  assume "k \<le> 10"
  then have "k \<in> {0, 1, 2, 3, 4, 5, 6, 7, 8, 9, 10}"
    unfolding insert_iff empty_iff by arith
  then show ?thesis
    by (elim insertE emptyE) simp_all
qed

text \<open>
  C1: for every triple of outcomes the probability is the sum of the three
  contributions, capped at 1.0, where the contributions are those of the
  specification: the digit test gives 0.5 or 0.3 on FAIL (by its p-value against 0.01)
  and 0.0 otherwise; the symmetry test gives 0.3, 0.2 or 0.1 on FAIL (by the larger
  deviation from 50 against 15 and 10) and 0.0 otherwise; the volume/depth test gives
  0.1 on WARNING, 0.2 on FAIL and 0.0 otherwise. The probability lies in [0, 1].
\<close>

theorem scorer_capped_sum:
  "calculate_manipulation_probability b s v =
     min (spec_digit_contribution b + spec_symmetry_contribution s + spec_volume_contribution v) 1.0 \<and>
   0 \<le> calculate_manipulation_probability b s v \<and>
   calculate_manipulation_probability b s v \<le> 1"
  using score_bounds [of b s v]
  by (simp add: calculate_manipulation_probability_def score_as_sum)

text \<open>
  C3: the label is LOW below 0.3, MEDIUM from 0.3 (included) up to 0.6 (excluded),
  and HIGH from 0.6 (included) on; so exactly 0.3 gives MEDIUM and exactly 0.6 gives
  HIGH.
\<close>

theorem label_boundaries:
  "(p < 0.3 \<longrightarrow> get_manipulation_label p = ''LOW'') \<and>
   (0.3 \<le> p \<and> p < 0.6 \<longrightarrow> get_manipulation_label p = ''MEDIUM'') \<and>
   (0.6 \<le> p \<longrightarrow> get_manipulation_label p = ''HIGH'') \<and>
   get_manipulation_label 0.3 = ''MEDIUM'' \<and>
   get_manipulation_label 0.6 = ''HIGH''"
  by (simp add: get_manipulation_label_def)

theorem label_boundaries_witness:
  "(0.2999::real) < 0.3 \<and> get_manipulation_label 0.2999 = ''LOW'' \<and>
   (0.3::real) \<le> 0.5999 \<and> (0.5999::real) < 0.6 \<and> get_manipulation_label 0.5999 = ''MEDIUM'' \<and>
   (0.6::real) \<le> 0.75 \<and> get_manipulation_label 0.75 = ''HIGH''"
  using label_boundaries [of "0.2999"] label_boundaries [of "0.5999"]
    label_boundaries [of "0.75"]
  by simp

text \<open>
  C9: without a credibility score the correlation is absent (None, not zero); with a
  score c it is exactly -1 * (probability - (1 - c)), and for a probability and a
  score in [0, 1] this value lies in [-1, 1].
\<close>

theorem correlation_value:
  "calculate_score_correlation p None = None \<and>
   calculate_score_correlation p (Some c) = Some (- 1 * (p - (1 - c))) \<and>
   (0 \<le> p \<and> p \<le> 1 \<and> 0 \<le> c \<and> c \<le> 1 \<longrightarrow>
      (\<exists>r. calculate_score_correlation p (Some c) = Some r \<and> - 1 \<le> r \<and> r \<le> 1))"
  by (simp add: calculate_score_correlation_def)

theorem correlation_value_witness:
  "(0::real) \<le> 0.8 \<and> (0.8::real) \<le> 1 \<and> (0::real) \<le> 0.3 \<and> (0.3::real) \<le> 1 \<and>
   calculate_score_correlation 0.8 (Some 0.3) = Some (- 0.1) \<and>
   calculate_score_correlation 0.8 None = None"
  using correlation_value [of "0.8" "0.3"] by simp

text \<open>
  C10: in exact arithmetic the uncapped score is k / 10 for a natural number
  k \<le> 10, so the cap of line 257 never changes it and the returned probability is one
  of 0.0, 0.1, ..., 1.0; the largest score, 0.5 + 0.3 + 0.2, is reached.
\<close>

theorem score_multiple_of_tenth:
  "(\<exists>k::nat. k \<le> 10 \<and> manipulation_score b s v = real k / 10) \<and>
   calculate_manipulation_probability b s v = manipulation_score b s v \<and>
   calculate_manipulation_probability b s v \<in> {0.0, 0.1, 0.2, 0.3, 0.4, 0.5, 0.6, 0.7, 0.8, 0.9, 1.0} \<and>
   manipulation_score
     \<lparr>result = ''FAIL'', chi_squared = 900, p_value = 0.001\<rparr>
     \<lparr>result = ''FAIL'', buy_pct = 70, sell_pct = 30\<rparr>
     \<lparr>result = ''FAIL'', ratio = 25, benchmark = ''3-5x''\<rparr> = 0.5 + 0.3 + 0.2"
proof -
  obtain k :: nat where k: "k \<le> 10" "manipulation_score b s v = real k / 10"
    using score_tenths by blast
  have cap: "calculate_manipulation_probability b s v = manipulation_score b s v"
    using k by (simp add: calculate_manipulation_probability_def)
  have vals: "calculate_manipulation_probability b s v
      \<in> {0.0, 0.1, 0.2, 0.3, 0.4, 0.5, 0.6, 0.7, 0.8, 0.9, 1.0}"
    unfolding cap k(2) by (rule tenth_values [OF k(1)])
  have top: "manipulation_score
     \<lparr>result = ''FAIL'', chi_squared = 900, p_value = 0.001\<rparr>
     \<lparr>result = ''FAIL'', buy_pct = 70, sell_pct = 30\<rparr>
     \<lparr>result = ''FAIL'', ratio = 25, benchmark = ''3-5x''\<rparr> = 0.5 + 0.3 + 0.2"
    by (simp add: manipulation_score_def)
  from k cap vals top show ?thesis by blast
qed

section \<open>Properties of the side-symmetry test\<close>

lemma count_ones: "(\<Sum>t\<leftarrow>xs. (1::nat)) = length xs"
  by (induction xs) simp_all

lemma symmetry_test_by_length:
  "buy_sell_symmetry_test trades =
     (let buy_count = length (filter (\<lambda>t. side t = Some ''buy'') trades);
          sell_count = length (filter (\<lambda>t. side t = Some ''sell'') trades);
          total = buy_count + sell_count
      in if total = 0
         then \<lparr>result = ''INSUFFICIENT_DATA'', buy_pct = 0, sell_pct = 0\<rparr>
         else
           (let bp = binary64 (binary64 (real buy_count / real total) * 100);
                sp = binary64 (binary64 (real sell_count / real total) * 100)
            in \<lparr>result =
                   (if 45 \<le> bp \<and> bp \<le> 55 \<and> 45 \<le> sp \<and> sp \<le> 55 then ''PASS'' else ''FAIL''),
                 buy_pct = bp, sell_pct = sp\<rparr>))"
  by (simp only: buy_sell_symmetry_test_def count_ones)

lemma symmetry_ignores_other_sides:
  "buy_sell_symmetry_test
     (filter (\<lambda>t. side t = Some ''buy'' \<or> side t = Some ''sell'') trades)
   = buy_sell_symmetry_test trades"
proof -
  have "filter (\<lambda>t. side t = Some ''buy'')
          (filter (\<lambda>t. side t = Some ''buy'' \<or> side t = Some ''sell'') trades)
        = filter (\<lambda>t. side t = Some ''buy'') trades"
    by (induction trades) simp_all
  moreover have "filter (\<lambda>t. side t = Some ''sell'')
          (filter (\<lambda>t. side t = Some ''buy'' \<or> side t = Some ''sell'') trades)
        = filter (\<lambda>t. side t = Some ''sell'') trades"
    by (induction trades) simp_all
  ultimately show ?thesis
    by (simp only: buy_sell_symmetry_test_def)
qed

lemma symmetry_insufficient_data:
  "length (filter (\<lambda>t. side t = Some ''buy'') trades)
     + length (filter (\<lambda>t. side t = Some ''sell'') trades) = 0 \<Longrightarrow>
   buy_sell_symmetry_test trades = \<lparr>result = ''INSUFFICIENT_DATA'', buy_pct = 0, sell_pct = 0\<rparr>"
  by (simp add: symmetry_test_by_length)

subsection \<open>Rounding at the edge of the band\<close>

lemma binary64_in_binade:
  assumes lo: "2 powr of_int e \<le> x" and hi: "x < 2 powr (of_int e + 1)"
    and e: "- 1022 \<le> e"
  shows "binary64 x =
    of_int (round_half_even (x / 2 powr (of_int e - 52))) * 2 powr (of_int e - 52)"
proof -
  have pos: "0 < x"
    using lo by (rule less_le_trans [rotated]) simp
  have "of_int e \<le> log 2 x"
    using lo pos by (simp add: le_log_iff)
  moreover have "log 2 x < of_int e + 1"
    using hi pos by (simp add: log_less_iff)
  ultimately have "\<lfloor>log 2 x\<rfloor> = e"
    by (simp add: floor_eq_iff)
  then show ?thesis
    using pos e by (simp add: binary64_def Let_def max_def)
qed

lemma quotient_11_20: "binary64 (11 / 20) = 4953959590107546 / 2 ^ 53"
  using binary64_in_binade [of "- 1" "11 / 20"]
  by (simp add: round_half_even_def Let_def powr_minus)

lemma product_11_20:
  "binary64 (4953959590107546 / 2 ^ 53 * 100) = 7740561859543041 / 2 ^ 47"
  using binary64_in_binade [of 5 "4953959590107546 / 2 ^ 53 * 100"]
  by (simp add: round_half_even_def Let_def powr_minus)

lemma quotient_9_20: "binary64 (9 / 20) = 8106479329266893 / 2 ^ 54"
  using binary64_in_binade [of "- 2" "9 / 20"]
  by (simp add: round_half_even_def Let_def powr_minus)

lemma product_9_20: "binary64 (8106479329266893 / 2 ^ 54 * 100) = 45"
  using binary64_in_binade [of 5 "8106479329266893 / 2 ^ 54 * 100"]
  by (simp add: round_half_even_def Let_def powr_minus)

lemma pct_11_20: "binary64 (binary64 (11 / 20) * 100) = 7740561859543041 / 2 ^ 47"
  by (simp only: quotient_11_20 product_11_20)

lemma pct_9_20: "binary64 (binary64 (9 / 20) * 100) = 45"
  by (simp only: quotient_9_20 product_9_20)

text \<open>
  C4: with 11 buys and 9 sells (and two trades of other sides, which are not
  counted) the percentages of the claim are 100 * 11 / 20 = 55 and 100 - 55 = 45,
  both inside [45, 55], so the claim gives PASS. The code returns FAIL: it reports
  buy\_pct = 7740561859543041 / 2 ^ 47, the double that prints as
  55.00000000000001, which is above 55, and sell\_pct = 45, which is not
  100 - buy\_pct.
\<close>

theorem symmetry_band_edge_fails:
  "100 * real 11 / real (11 + 9) = 55 \<and>
   buy_sell_symmetry_test
     (replicate 11 \<lparr>amount = Finite \<lparr>negative = False, digits = [1, 5], decpt = 1\<rparr>,
                    side = Some ''buy''\<rparr>
      @ [\<lparr>amount = Finite \<lparr>negative = False, digits = [7], decpt = 2\<rparr>, side = None\<rparr>,
         \<lparr>amount = Finite \<lparr>negative = False, digits = [3], decpt = 1\<rparr>, side = Some ''unknown''\<rparr>]
      @ replicate 9 \<lparr>amount = Finite \<lparr>negative = False, digits = [2], decpt = 0\<rparr>,
                     side = Some ''sell''\<rparr>)
   = \<lparr>result = ''FAIL'', buy_pct = 7740561859543041 / 2 ^ 47, sell_pct = 45\<rparr> \<and>
   (55 :: real) < 7740561859543041 / 2 ^ 47 \<and>
   (45 :: real) \<noteq> 100 - 7740561859543041 / 2 ^ 47"
proof -
  have "buy_sell_symmetry_test
     (replicate 11 \<lparr>amount = Finite \<lparr>negative = False, digits = [1, 5], decpt = 1\<rparr>,
                    side = Some ''buy''\<rparr>
      @ [\<lparr>amount = Finite \<lparr>negative = False, digits = [7], decpt = 2\<rparr>, side = None\<rparr>,
         \<lparr>amount = Finite \<lparr>negative = False, digits = [3], decpt = 1\<rparr>, side = Some ''unknown''\<rparr>]
      @ replicate 9 \<lparr>amount = Finite \<lparr>negative = False, digits = [2], decpt = 0\<rparr>,
                     side = Some ''sell''\<rparr>)
   = \<lparr>result =
        (if 45 \<le> binary64 (binary64 (11 / 20) * 100) \<and>
            binary64 (binary64 (11 / 20) * 100) \<le> 55 \<and>
            45 \<le> binary64 (binary64 (9 / 20) * 100) \<and>
            binary64 (binary64 (9 / 20) * 100) \<le> 55 then ''PASS'' else ''FAIL''),
      buy_pct = binary64 (binary64 (11 / 20) * 100),
      sell_pct = binary64 (binary64 (9 / 20) * 100)\<rparr>"
    by (simp add: symmetry_test_by_length Let_def)
  then show ?thesis
    unfolding pct_11_20 pct_9_20 by simp
qed

section \<open>Properties of the volume/depth test\<close>

text \<open>
  C2: when the client, the ticker (with a numeric quoteVolume) and the order book
  are obtained, a total depth of 0 gives INSUFFICIENT\_DATA with ratio 0 whatever the
  volume; otherwise the ratio is volume / total depth and the result is PASS up to 10
  (included), WARNING above 10 up to 20 (included), FAIL above 20. In particular
  10.00 is PASS, 10.01 is WARNING, 20.00 is WARNING and 20.01 is FAIL.
\<close>

theorem volume_depth_classification:
  assumes "ccxt exchange_name = Inr ex"
    and "fetch_ticker ex pair = Inr tk"
    and "tk ''quoteVolume'' = Some (PyNum volume)"
    and "fetch_order_book ex pair 20 = Inr ob"
  shows "(total_depth ob = 0 \<longrightarrow>
            result (volume_depth_ratio_test ccxt exchange_name pair) = ''INSUFFICIENT_DATA'' \<and>
            ratio (volume_depth_ratio_test ccxt exchange_name pair) = 0) \<and>
         (total_depth ob \<noteq> 0 \<longrightarrow>
            ratio (volume_depth_ratio_test ccxt exchange_name pair) = volume / total_depth ob \<and>
            (volume / total_depth ob \<le> 10 \<longrightarrow>
               result (volume_depth_ratio_test ccxt exchange_name pair) = ''PASS'') \<and>
            (10 < volume / total_depth ob \<and> volume / total_depth ob \<le> 20 \<longrightarrow>
               result (volume_depth_ratio_test ccxt exchange_name pair) = ''WARNING'') \<and>
            (20 < volume / total_depth ob \<longrightarrow>
               result (volume_depth_ratio_test ccxt exchange_name pair) = ''FAIL'') \<and>
            (volume / total_depth ob = 10.00 \<longrightarrow>
               result (volume_depth_ratio_test ccxt exchange_name pair) = ''PASS'') \<and>
            (volume / total_depth ob = 10.01 \<longrightarrow>
               result (volume_depth_ratio_test ccxt exchange_name pair) = ''WARNING'') \<and>
            (volume / total_depth ob = 20.00 \<longrightarrow>
               result (volume_depth_ratio_test ccxt exchange_name pair) = ''WARNING'') \<and>
            (volume / total_depth ob = 20.01 \<longrightarrow>
               result (volume_depth_ratio_test ccxt exchange_name pair) = ''FAIL''))"
proof -
  let ?c = "\<lambda>r::real. if r < 3 then ''PASS''
                else if 3 \<le> r \<and> r \<le> 10 then ''PASS''
                else if 10 < r \<and> r \<le> 20
                then ''WARNING'' else ''FAIL''"
  have run: "volume_depth_ratio_test ccxt exchange_name pair =
      (if total_depth ob = 0
       then \<lparr>result = ''INSUFFICIENT_DATA'', ratio = 0, benchmark = ''3-5x''\<rparr>
       else \<lparr>result =
               (if volume / total_depth ob < 3 then ''PASS''
                else if 3 \<le> volume / total_depth ob \<and> volume / total_depth ob \<le> 10 then ''PASS''
                else if 10 < volume / total_depth ob \<and> volume / total_depth ob \<le> 20
                then ''WARNING'' else ''FAIL''),
             ratio = volume / total_depth ob, benchmark = ''3-5x''\<rparr>)"
    by (simp add: volume_depth_ratio_test_def volume_depth_try_def assms py_float_def Let_def)
  define r where "r = volume / total_depth ob"
  have cls:
    "(r \<le> 10 \<longrightarrow> ?c r = ''PASS'') \<and>
     (10 < r \<and> r \<le> 20 \<longrightarrow> ?c r = ''WARNING'') \<and>
     (20 < r \<longrightarrow> ?c r = ''FAIL'') \<and>
     (r = 10.00 \<longrightarrow> ?c r = ''PASS'') \<and>
     (r = 10.01 \<longrightarrow> ?c r = ''WARNING'') \<and>
     (r = 20.00 \<longrightarrow> ?c r = ''WARNING'') \<and>
     (r = 20.01 \<longrightarrow> ?c r = ''FAIL'')"
    by auto
  show ?thesis
    unfolding run using cls unfolding r_def by simp
qed

theorem volume_depth_classification_witness:
  "(let ccxt = (\<lambda>name. Inr \<lparr>
        fetch_ticker = (\<lambda>p. Inr [''quoteVolume'' \<mapsto> PyNum
           (if p = ''A'' then 10000 else if p = ''B'' then 10010
            else if p = ''C'' then 20000 else 20010)]),
        fetch_order_book = (\<lambda>p n. Inr
           (if p = ''Z'' then \<lparr>bids = [], asks = []\<rparr>
            else \<lparr>bids = [(100, 5)], asks = [(50, 10)]\<rparr>))\<rparr>)
    in volume_depth_ratio_test ccxt ''binance'' ''A''
         = \<lparr>result = ''PASS'', ratio = 10, benchmark = ''3-5x''\<rparr> \<and>
       volume_depth_ratio_test ccxt ''binance'' ''B''
         = \<lparr>result = ''WARNING'', ratio = 10.01, benchmark = ''3-5x''\<rparr> \<and>
       volume_depth_ratio_test ccxt ''binance'' ''C''
         = \<lparr>result = ''WARNING'', ratio = 20, benchmark = ''3-5x''\<rparr> \<and>
       volume_depth_ratio_test ccxt ''binance'' ''D''
         = \<lparr>result = ''FAIL'', ratio = 20.01, benchmark = ''3-5x''\<rparr> \<and>
       volume_depth_ratio_test ccxt ''binance'' ''Z''
         = \<lparr>result = ''INSUFFICIENT_DATA'', ratio = 0, benchmark = ''3-5x''\<rparr>)"
proof -
  let ?tk = "\<lambda>p::string. [''quoteVolume'' \<mapsto> PyNum
           (if p = ''A'' then 10000 else if p = ''B'' then 10010
            else if p = ''C'' then 20000 else 20010)]"
  let ?ob = "\<lambda>p::string. if p = ''Z'' then \<lparr>bids = [], asks = []\<rparr>
            else \<lparr>bids = [(100, 5)], asks = [(50::real, 10::real)]\<rparr>"
  let ?ex = "\<lparr>fetch_ticker = (\<lambda>p. Inr (?tk p)) :: string \<Rightarrow> exn + ticker,
             fetch_order_book = (\<lambda>p n. Inr (?ob p)) :: string \<Rightarrow> nat \<Rightarrow> exn + order_book\<rparr>"
  let ?ccxt = "(\<lambda>name. Inr ?ex) :: ccxt"
  have bm: "benchmark (volume_depth_ratio_test ?ccxt ''binance'' p) = ''3-5x''" for p
    by (simp add: volume_depth_ratio_test_def split: sum.splits)
      (auto simp add: volume_depth_try_def py_float_def Let_def split: if_splits)
  have "volume_depth_ratio_test ?ccxt ''binance'' ''A''
         = \<lparr>result = ''PASS'', ratio = 10, benchmark = ''3-5x''\<rparr>"
    using volume_depth_classification
      [of ?ccxt "''binance''" ?ex "''A''" "?tk ''A''" 10000 "?ob ''A''"]
      bm [of "''A''"]
    by (intro volume_depth_outcome.equality) (simp_all add: total_depth_def)
  moreover have "volume_depth_ratio_test ?ccxt ''binance'' ''B''
         = \<lparr>result = ''WARNING'', ratio = 10.01, benchmark = ''3-5x''\<rparr>"
    using volume_depth_classification
      [of ?ccxt "''binance''" ?ex "''B''" "?tk ''B''" 10010 "?ob ''B''"]
      bm [of "''B''"]
    by (intro volume_depth_outcome.equality) (simp_all add: total_depth_def)
  moreover have "volume_depth_ratio_test ?ccxt ''binance'' ''C''
         = \<lparr>result = ''WARNING'', ratio = 20, benchmark = ''3-5x''\<rparr>"
    using volume_depth_classification
      [of ?ccxt "''binance''" ?ex "''C''" "?tk ''C''" 20000 "?ob ''C''"]
      bm [of "''C''"]
    by (intro volume_depth_outcome.equality) (simp_all add: total_depth_def)
  moreover have "volume_depth_ratio_test ?ccxt ''binance'' ''D''
         = \<lparr>result = ''FAIL'', ratio = 20.01, benchmark = ''3-5x''\<rparr>"
    using volume_depth_classification
      [of ?ccxt "''binance''" ?ex "''D''" "?tk ''D''" 20010 "?ob ''D''"]
      bm [of "''D''"]
    by (intro volume_depth_outcome.equality) (simp_all add: total_depth_def)
  moreover have "volume_depth_ratio_test ?ccxt ''binance'' ''Z''
         = \<lparr>result = ''INSUFFICIENT_DATA'', ratio = 0, benchmark = ''3-5x''\<rparr>"
    using volume_depth_classification
      [of ?ccxt "''binance''" ?ex "''Z''" "?tk ''Z''" 20010 "?ob ''Z''"]
      bm [of "''Z''"]
    by (intro volume_depth_outcome.equality) (simp_all add: total_depth_def)
  ultimately show ?thesis unfolding Let_def by blast
qed

text \<open>
  C8: when building the client, fetching the ticker or fetching the order book
  raises, the test returns the ERROR outcome with ratio 0; the exception does not
  reach the caller (the test always returns an outcome).
\<close>

theorem volume_depth_acquisition_error:
  assumes "ccxt exchange_name = Inl e \<or>
           (\<exists>ex. ccxt exchange_name = Inr ex \<and>
                 (fetch_ticker ex pair = Inl e \<or> fetch_order_book ex pair 20 = Inl e))"
  shows "volume_depth_ratio_test ccxt exchange_name pair =
           \<lparr>result = ''ERROR'', ratio = 0, benchmark = ''3-5x''\<rparr>"
proof -
  have "\<exists>e'. volume_depth_try ccxt exchange_name pair = Inl e'"
    using assms
    by (auto simp add: volume_depth_try_def split: sum.splits)
  then show ?thesis
    by (auto simp add: volume_depth_ratio_test_def)
qed

theorem volume_depth_acquisition_error_witness:
  "(let ccxt = (\<lambda>name.
        if name = ''nope'' then Inl AttributeError
        else Inr \<lparr>
          fetch_ticker = (\<lambda>p. if name = ''down'' then Inl NetworkError
                              else Inr [''quoteVolume'' \<mapsto> PyNum 25000]),
          fetch_order_book = (\<lambda>p n. Inl ExchangeError)\<rparr>)
    in volume_depth_ratio_test ccxt ''nope'' ''BTC/USDT''
         = \<lparr>result = ''ERROR'', ratio = 0, benchmark = ''3-5x''\<rparr> \<and>
       volume_depth_ratio_test ccxt ''down'' ''BTC/USDT''
         = \<lparr>result = ''ERROR'', ratio = 0, benchmark = ''3-5x''\<rparr> \<and>
       volume_depth_ratio_test ccxt ''kraken'' ''BTC/USDT''
         = \<lparr>result = ''ERROR'', ratio = 0, benchmark = ''3-5x''\<rparr>)"
proof -
  let ?ccxt = "(\<lambda>name.
        if name = ''nope'' then Inl AttributeError
        else Inr \<lparr>
          fetch_ticker = (\<lambda>p. if name = ''down'' then Inl NetworkError
                              else Inr [''quoteVolume'' \<mapsto> PyNum 25000]),
          fetch_order_book = (\<lambda>p n. Inl ExchangeError)\<rparr>) :: ccxt"
  have "volume_depth_ratio_test ?ccxt ''nope'' ''BTC/USDT''
         = \<lparr>result = ''ERROR'', ratio = 0, benchmark = ''3-5x''\<rparr>"
    using volume_depth_acquisition_error
      [where ccxt = ?ccxt and exchange_name = "''nope''" and e = AttributeError]
    by simp
  moreover have "volume_depth_ratio_test ?ccxt ''down'' ''BTC/USDT''
         = \<lparr>result = ''ERROR'', ratio = 0, benchmark = ''3-5x''\<rparr>"
    using volume_depth_acquisition_error
      [where ccxt = ?ccxt and exchange_name = "''down''" and e = NetworkError]
    by simp
  moreover have "volume_depth_ratio_test ?ccxt ''kraken'' ''BTC/USDT''
         = \<lparr>result = ''ERROR'', ratio = 0, benchmark = ''3-5x''\<rparr>"
    using volume_depth_acquisition_error
      [where ccxt = ?ccxt and exchange_name = "''kraken''" and e = ExchangeError]
    by simp
  ultimately show ?thesis unfolding Let_def by blast
qed

section \<open>Properties of the digit-distribution test\<close>

subsection \<open>The leading digit of a positive float\<close>

lemma int_of_digit_char: "d \<le> 9 \<Longrightarrow> int_of_char (digit_char d) = Inr d"
proof -
  assume "d \<le> 9"
  then have "d \<in> {0, 1, 2, 3, 4, 5, 6, 7, 8, 9}" by auto
  then show ?thesis
    by (auto simp: int_of_char_def digit_char_def)
qed

lemma digit_char_not_stripped:
  "1 \<le> d \<Longrightarrow> d \<le> 9 \<Longrightarrow> digit_char d \<notin> set ''0.''"
proof -
  assume "1 \<le> d" "d \<le> 9"
  then have "d \<in> {1, 2, 3, 4, 5, 6, 7, 8, 9}" by auto
  then show ?thesis
    by (auto simp: digit_char_def)
qed

lemma lstrip_zeros: "lstrip ''0.'' (replicate n (CHR ''0'') @ s) = lstrip ''0.'' s"
  by (induction n) (simp_all add: lstrip_def)

lemma lstrip_keep: "c \<notin> set chars \<Longrightarrow> lstrip chars (c # s) = c # s"
  by (simp add: lstrip_def)

lemma mantissa_Nil: "mantissa [] = 0"
  by (simp add: mantissa_def)

lemma decimal_val_pos: "decimal_val x > 0 \<Longrightarrow> \<not> negative x \<and> digits x \<noteq> []"
proof
  assume pos: "decimal_val x > 0"
  have pw: "(10::real) powr y > 0" for y by simp
  show "\<not> negative x"
  proof
    assume "negative x"
    then have "decimal_val x \<le> 0"
      by (simp add: decimal_val_def mult_nonneg_nonneg)
    with pos show False by simp
  qed
  show "digits x \<noteq> []"
  proof
    assume "digits x = []"
    then have "decimal_val x = 0" by (simp add: decimal_val_def mantissa_Nil)
    with pos show False by simp
  qed
qed

lemma decimal_str_head:
  assumes "\<not> negative x" "digits x = d # ds" "1 \<le> d" "d \<le> 9"
  shows "\<exists>rest. lstrip ''0.'' (decimal_str x) = digit_char d # rest"
proof -
  define c where "c = digit_char d"
  define cs where "cs = map digit_char ds"
  have keep: "lstrip ''0.'' (c # s) = c # s" for s
    unfolding c_def using digit_char_not_stripped [OF assms(3,4)] by (rule lstrip_keep)
  have strip2: "lstrip ''0.'' (''0.'' @ s) = lstrip ''0.'' s" for s
    by (simp add: lstrip_def)
  have ds: "map digit_char (digits x) = c # cs"
    by (simp add: assms(2) c_def cs_def)
  consider (small) "- 4 < decpt x" "decpt x \<le> 0"
    | (whole) "0 < decpt x" "decpt x \<le> 16" "int (length (c # cs)) \<le> decpt x"
    | (point) "0 < decpt x" "decpt x \<le> 16" "\<not> int (length (c # cs)) \<le> decpt x"
    | (sci) "\<not> (- 4 < decpt x \<and> decpt x \<le> 16)"
    by linarith
  then have "\<exists>rest. lstrip ''0.'' (decimal_str x) = c # rest"
  proof cases
    case small
    have "decimal_str x = ''0.'' @ replicate (nat (- decpt x)) (CHR ''0'') @ c # cs"
      using small assms(1) ds by (simp add: decimal_str_def Let_def)
    then show ?thesis
      using strip2 [of "replicate (nat (- decpt x)) (CHR ''0'') @ c # cs"]
      by (simp add: lstrip_zeros keep)
  next
    case whole
    have "decimal_str x = c # cs @ replicate (nat (decpt x - int (length (c # cs)))) (CHR ''0'') @ ''.0''"
      using whole assms(1) ds by (simp add: decimal_str_def Let_def)
    then show ?thesis by (simp add: keep)
  next
    case point
    obtain m where m: "nat (decpt x) = Suc m"
      using point(1) by (cases "nat (decpt x)") auto
    have "decimal_str x = take (nat (decpt x)) (c # cs) @ ''.'' @ drop (nat (decpt x)) (c # cs)"
      using point assms(1) ds by (simp add: decimal_str_def Let_def)
    then show ?thesis by (simp add: m keep)
  next
    case sci
    have "\<exists>rest. decimal_str x = c # rest"
      using sci assms(1) ds by (auto simp add: decimal_str_def Let_def)
    then show ?thesis by (auto simp: keep)
  qed
  then show ?thesis by (simp add: c_def)
qed

lemma first_digit_of_positive:
  assumes "wf_decimal x" "decimal_val x > 0"
  shows "first_digit (Finite x) = Inr (leading_digit (Finite x)) \<and>
         1 \<le> leading_digit (Finite x) \<and> leading_digit (Finite x) \<le> 9"
proof -
  from decimal_val_pos [OF assms(2)] obtain d ds where
    neg: "\<not> negative x" and dg: "digits x = d # ds"
    by (cases "digits x") auto
  from assms(1) dg have d: "1 \<le> d" "d \<le> 9"
    by (auto simp: wf_decimal_def)
  from decimal_str_head [OF neg dg d] obtain rest where
    "lstrip ''0.'' (decimal_str x) = digit_char d # rest" ..
  then have "first_digit (Finite x) = Inr d"
    by (simp add: first_digit_def int_of_digit_char [OF d(2)])
  with d dg show ?thesis by simp
qed

lemma first_digit_infinity: "first_digit (Infinity False) = Inl ValueError"
  by (simp add: first_digit_def lstrip_def int_of_char_def)

lemma positive_finite:
  "float_gt_zero a \<Longrightarrow> a \<noteq> Infinity False \<Longrightarrow> \<exists>x. a = Finite x \<and> decimal_val x > 0"
  by (cases a) auto

lemma first_digits_of_finite:
  "list_all wf_float amounts \<Longrightarrow> Infinity False \<notin> set amounts \<Longrightarrow>
   first_digits_of amounts = Inr (map leading_digit (filter float_gt_zero amounts))"
proof (induction amounts)
  case Nil
  then show ?case by simp
next
  case (Cons a amounts)
  then have IH: "first_digits_of amounts = Inr (map leading_digit (filter float_gt_zero amounts))"
    by simp
  show ?case
  proof (cases "float_gt_zero a")
    case True
    with Cons.prems obtain x where x: "a = Finite x" "decimal_val x > 0"
      using positive_finite [of a] by auto
    from Cons.prems x(1) have "wf_decimal x" by simp
    from first_digit_of_positive [OF this x(2)]
    have "first_digit a = Inr (leading_digit a)" by (simp only: x(1))
    with True IH show ?thesis by simp
  next
    case False
    with IH show ?thesis by simp
  qed
qed

lemma leading_digits_in_range:
  "list_all wf_float amounts \<Longrightarrow> Infinity False \<notin> set amounts \<Longrightarrow>
   d \<in> set (map leading_digit (filter float_gt_zero amounts)) \<Longrightarrow> 1 \<le> d \<and> d \<le> 9"
proof -
  assume wf: "list_all wf_float amounts" and ninf: "Infinity False \<notin> set amounts"
    and "d \<in> set (map leading_digit (filter float_gt_zero amounts))"
  then obtain a where a: "a \<in> set amounts" "float_gt_zero a" "d = leading_digit a"
    by auto
  from a(1) ninf have "a \<noteq> Infinity False" by blast
  with a(2) obtain x where x: "a = Finite x" "decimal_val x > 0"
    using positive_finite [of a] by auto
  from wf a(1) x(1) have "wf_decimal x" by (auto simp: list_all_iff)
  from first_digit_of_positive [OF this x(2)] a(3) x(1)
  show "1 \<le> d \<and> d \<le> 9" by simp
qed

lemma first_digits_of_infinity:
  "list_all wf_float amounts \<Longrightarrow> Infinity False \<in> set amounts \<Longrightarrow>
   first_digits_of amounts = Inl ValueError"
proof (induction amounts)
  case Nil
  then show ?case by simp
next
  case (Cons a amounts)
  show ?case
  proof (cases "a = Infinity False")
    case True
    then show ?thesis by (simp add: first_digit_infinity)
  next
    case False
    with Cons have IH: "first_digits_of amounts = Inl ValueError" by simp
    show ?thesis
    proof (cases "float_gt_zero a")
      case True
      with False obtain x where x: "a = Finite x" "decimal_val x > 0"
        using positive_finite [of a] by auto
      from Cons.prems x(1) have "wf_decimal x" by simp
      from first_digit_of_positive [OF this x(2)]
      have "first_digit a = Inr (leading_digit a)" by (simp only: x(1))
      with True IH show ?thesis by simp
    next
      case False
      with IH show ?thesis by simp
    qed
  qed
qed

lemma positive_amounts:
  "filter float_gt_zero (map amount (filter (\<lambda>t. float_gt_zero (amount t)) trades))
   = map amount (filter (\<lambda>t. float_gt_zero (amount t)) trades)"
  by (induction trades) simp_all

lemma valid_first_digits_finite:
  assumes "\<forall>t \<in> set trades. wf_float (amount t) \<and> amount t \<noteq> Infinity False"
  shows "valid_first_digits trades =
     Inr (map (\<lambda>t. leading_digit (amount t)) (filter (\<lambda>t. float_gt_zero (amount t)) trades))"
proof -
  let ?amounts = "map amount (filter (\<lambda>t. float_gt_zero (amount t)) trades)"
  have wf: "list_all wf_float ?amounts"
    using assms by (auto simp: list_all_iff)
  have ninf: "Infinity False \<notin> set ?amounts"
    using assms by auto
  have "\<forall>d \<in> set (map leading_digit ?amounts). 1 \<le> d \<and> d \<le> 9"
    using leading_digits_in_range [OF wf ninf] unfolding positive_amounts by blast
  then have "filter (\<lambda>d. 1 \<le> d \<and> d \<le> 9) (map leading_digit ?amounts)
      = map leading_digit ?amounts"
    by (simp only: filter_id_conv)
  then have "valid_first_digits trades = Inr (map leading_digit ?amounts)"
    unfolding valid_first_digits_def Let_def first_digits_of_finite [OF wf ninf] positive_amounts
    by (simp only: sum.case)
  then show ?thesis by (simp add: comp_def)
qed

lemma valid_first_digits_infinity:
  assumes "\<forall>t \<in> set trades. wf_float (amount t)"
    and "\<exists>t \<in> set trades. amount t = Infinity False"
  shows "valid_first_digits trades = Inl ValueError"
proof -
  let ?amounts = "map amount (filter (\<lambda>t. float_gt_zero (amount t)) trades)"
  have wf: "list_all wf_float ?amounts"
    using assms(1) by (auto simp: list_all_iff)
  from assms(2) obtain t where "t \<in> set trades" "amount t = Infinity False" by blast
  then have "Infinity False \<in> set ?amounts" by force
  from first_digits_of_infinity [OF wf this] show ?thesis
    by (simp add: valid_first_digits_def)
qed

subsection \<open>The chi-squared call does not raise\<close>

text \<open>
  The expected frequencies of Benford's law add up to the number of digits, because
  the nine logarithms telescope to \<open>log 10 10\<close>; the observed frequencies add up
  to it as well, because every counted digit lies in 1..9.
\<close>

lemma benford_log_sum: "(\<Sum>d\<leftarrow>[1..<10]. log 10 (1 + 1 / real d)) = 1"
proof -
  have step: "log 10 (1 + 1 / real d) = log 10 (real (Suc d)) - log 10 (real d)"
    if "d \<in> {1..<10}" for d
  proof -
    from that have pos: "0 < real d" by simp
    then have "1 + 1 / real d = real (Suc d) / real d"
      by (simp add: field_simps)
    then show ?thesis using pos by (simp add: log_divide)
  qed
  have "(\<Sum>d\<leftarrow>[1..<10]. log 10 (1 + 1 / real d)) = (\<Sum>d = 1..<10. log 10 (1 + 1 / real d))"
    by (simp only: interv_sum_list_conv_sum_set_nat atLeastLessThan_upt)
  also have "\<dots> = (\<Sum>d = 1..<10. log 10 (real (Suc d)) - log 10 (real d))"
    by (rule sum.cong) (simp_all only: step)
  also have "\<dots> = log 10 (real 10) - log 10 (real 1)"
    by (rule sum_Suc_diff') simp
  also have "\<dots> = 1" by simp
  finally show ?thesis .
qed

lemma expected_freq_sum:
  "(\<Sum>d\<leftarrow>[1..<10]. n * log 10 (1 + 1 / real d)) = n"
proof -
  have "(\<Sum>d\<leftarrow>[1..<10]. n * log 10 (1 + 1 / real d)) = n * (\<Sum>d\<leftarrow>[1..<10]. log 10 (1 + 1 / real d))"
    by (simp only: sum_list_const_mult)
  then show ?thesis by (simp only: benford_log_sum mult_1_right)
qed

lemma observed_freq_sum:
  "list_all (\<lambda>d. 1 \<le> d \<and> d \<le> 9) ds \<Longrightarrow>
   (\<Sum>d\<leftarrow>[1..<10]. real (count_list ds d)) = real (length ds)"
proof (induction ds)
  case Nil
  then show ?case by simp
next
  case (Cons x xs)
  then have x: "x \<in> {1..<10}" and xs: "list_all (\<lambda>d. 1 \<le> d \<and> d \<le> 9) xs"
    by auto
  have "(\<Sum>d\<leftarrow>[1..<10]. real (count_list (x # xs) d))
      = (\<Sum>d = 1..<10. real (count_list xs d) + (if x = d then 1 else 0))"
    unfolding interv_sum_list_conv_sum_set_nat atLeastLessThan_upt [symmetric]
    by (rule sum.cong) simp_all
  also have "\<dots> = (\<Sum>d = 1..<10. real (count_list xs d)) + (\<Sum>d = 1..<10. if x = d then 1 else 0)"
    by (rule sum.distrib)
  also have "(\<Sum>d = 1..<10. if x = d then 1 else 0) = (1::real)"
    using x by (simp only: sum.delta' finite_atLeastLessThan if_True)
  also have "(\<Sum>d = 1..<10. real (count_list xs d)) = real (length xs)"
    using Cons.IH [OF xs]
    by (simp only: interv_sum_list_conv_sum_set_nat atLeastLessThan_upt)
  finally show ?case by simp
qed

lemma chisquare_equal_sums:
  "sum_list f_obs = sum_list f_exp \<Longrightarrow> \<exists>r. chisquare f_obs f_exp = Inr r"
  by (simp add: chisquare_def Let_def)

lemma benford_returns:
  assumes "\<forall>t \<in> set trades. wf_float (amount t) \<and> amount t \<noteq> Infinity False"
  shows "\<exists>r. benford_law_test trades = Inr r"
proof -
  let ?ds = "map (\<lambda>t. leading_digit (amount t)) (filter (\<lambda>t. float_gt_zero (amount t)) trades)"
  let ?amounts = "map amount (filter (\<lambda>t. float_gt_zero (amount t)) trades)"
  have v: "valid_first_digits trades = Inr ?ds"
    by (rule valid_first_digits_finite [OF assms])
  have wf: "list_all wf_float ?amounts"
    using assms by (auto simp: list_all_iff)
  have ninf: "Infinity False \<notin> set ?amounts"
    using assms by auto
  have ds: "?ds = map leading_digit ?amounts" by (simp add: comp_def)
  have rng: "list_all (\<lambda>d. 1 \<le> d \<and> d \<le> 9) ?ds"
    unfolding ds list_all_iff
    using leading_digits_in_range [OF wf ninf] unfolding positive_amounts by blast
  let ?obs = "map (\<lambda>d. real (count_list ?ds d)) [1..<10]"
  let ?exp = "map (\<lambda>d. real (length ?ds) * log 10 (1 + 1 / real d)) [1..<10]"
  have "sum_list ?obs = sum_list ?exp"
    by (simp only: observed_freq_sum [OF rng] expected_freq_sum)
  then obtain r where r: "chisquare ?obs ?exp = Inr r"
    using chisquare_equal_sums by blast
  show ?thesis
  proof (cases "?ds = []")
    case True
    then show ?thesis
      by (simp add: benford_law_test_def v)
  next
    case False
    obtain chi p where "r = (chi, p)" by (cases r)
    with r False show ?thesis
      unfolding benford_law_test_def v Let_def
      by (simp only: sum.case if_False prod.case) blast
  qed
qed

lemma benford_raises:
  assumes "\<forall>t \<in> set trades. wf_float (amount t)"
    and "\<exists>t \<in> set trades. amount t = Infinity False"
  shows "benford_law_test trades = Inl ValueError"
  by (simp add: benford_law_test_def valid_first_digits_infinity [OF assms])

text \<open>
  C5: a trade set whose only amount is the positive infinity has no strictly positive
  size with a determinable leading digit (line 94 raises on it), and the test does not
  return INSUFFICIENT\_DATA: the ValueError of line 94 leaves the function. With no
  trade at all the outcome is the one the claim names.
\<close>

theorem benford_infinite_amount_raises:
  "float_gt_zero (Infinity False) \<and>
   first_digit (Infinity False) = Inl ValueError \<and>
   benford_law_test [\<lparr>amount = Infinity False, side = Some ''buy''\<rparr>] = Inl ValueError \<and>
   benford_law_test [] =
     Inr \<lparr>result = ''INSUFFICIENT_DATA'', chi_squared = 0, p_value = 1.0\<rparr>"
  by (simp add: benford_law_test_def valid_first_digits_def first_digit_infinity)

text \<open>
  C6: an infinite amount is not dropped during extraction. Among the amounts 0.032,
  0 and -25 the test counts the digit 3 alone and returns an outcome; with the
  positive infinity added, line 94 raises a ValueError that nothing handles.
\<close>

theorem benford_infinite_amount_not_discarded:
  "valid_first_digits
     [\<lparr>amount = Finite \<lparr>negative = False, digits = [3, 2], decpt = - 1\<rparr>, side = Some ''buy''\<rparr>,
      \<lparr>amount = Finite \<lparr>negative = False, digits = [], decpt = 0\<rparr>, side = Some ''buy''\<rparr>,
      \<lparr>amount = Finite \<lparr>negative = True, digits = [2, 5], decpt = 2\<rparr>, side = Some ''sell''\<rparr>]
   = Inr [3] \<and>
   valid_first_digits
     [\<lparr>amount = Finite \<lparr>negative = False, digits = [3, 2], decpt = - 1\<rparr>, side = Some ''buy''\<rparr>,
      \<lparr>amount = Finite \<lparr>negative = False, digits = [], decpt = 0\<rparr>, side = Some ''buy''\<rparr>,
      \<lparr>amount = Finite \<lparr>negative = True, digits = [2, 5], decpt = 2\<rparr>, side = Some ''sell''\<rparr>,
      \<lparr>amount = Infinity False, side = Some ''sell''\<rparr>]
   = Inl ValueError \<and>
   benford_law_test
     [\<lparr>amount = Finite \<lparr>negative = False, digits = [3, 2], decpt = - 1\<rparr>, side = Some ''buy''\<rparr>,
      \<lparr>amount = Finite \<lparr>negative = False, digits = [], decpt = 0\<rparr>, side = Some ''buy''\<rparr>,
      \<lparr>amount = Finite \<lparr>negative = True, digits = [2, 5], decpt = 2\<rparr>, side = Some ''sell''\<rparr>,
      \<lparr>amount = Infinity False, side = Some ''sell''\<rparr>]
   = Inl ValueError"
proof -
  let ?a = "\<lparr>amount = Finite \<lparr>negative = False, digits = [3, 2], decpt = - 1\<rparr>,
             side = Some ''buy''\<rparr>"
  let ?z = "\<lparr>amount = Finite \<lparr>negative = False, digits = [], decpt = 0\<rparr>,
             side = Some ''buy''\<rparr>"
  let ?n = "\<lparr>amount = Finite \<lparr>negative = True, digits = [2, 5], decpt = 2\<rparr>,
             side = Some ''sell''\<rparr>"
  let ?i = "\<lparr>amount = Infinity False, side = Some ''sell''\<rparr>"
  have wf: "\<forall>t \<in> set [?a, ?z, ?n]. wf_float (amount t) \<and> amount t \<noteq> Infinity False"
    by (simp add: wf_decimal_def)
  have pos: "float_gt_zero (amount ?a)" "\<not> float_gt_zero (amount ?z)"
    "\<not> float_gt_zero (amount ?n)"
    by (simp_all add: decimal_val_def mantissa_def)
  have "valid_first_digits [?a, ?z, ?n] = Inr [3]"
    unfolding valid_first_digits_finite [OF wf] using pos by simp
  moreover have wfi: "\<forall>t \<in> set [?a, ?z, ?n, ?i]. wf_float (amount t)"
    by (simp add: wf_decimal_def)
  have inf: "\<exists>t \<in> set [?a, ?z, ?n, ?i]. amount t = Infinity False"
    by simp
  have "valid_first_digits [?a, ?z, ?n, ?i] = Inl ValueError"
    by (rule valid_first_digits_infinity [OF wfi inf])
  moreover have "benford_law_test [?a, ?z, ?n, ?i] = Inl ValueError"
    by (rule benford_raises [OF wfi inf])
  ultimately show ?thesis by blast
qed

end
